theory Spec2Isabelle
  imports Main "HOL-Library.Word"
begin

unbundle bit_operations_syntax

section \<open>Data model\<close>

text \<open>
  The embedding follows \<^verbatim>\<open>lzss_c.c\<close>. A \<^verbatim>\<open>uint8_t\<close> is an \<open>8 word\<close>, so the shifts
  and the increments of the accumulator and of the bit counter wrap as in C. A
  \<^verbatim>\<open>uint32_t\<close> is a \<open>nat\<close> below \<open>2 ^ 32\<close>; where the C arithmetic can leave that
  range the reduction is written out, as \<open>mod 2 ^ 32\<close> after a sum and as \<open>take_bit 32\<close>
  after a left shift. An \<^verbatim>\<open>array_t\<close> (pointer and
  length) is the list of the bytes it gives access to.
\<close>

type_synonym byte = "8 word"

type_synonym array_t = "byte list"

datatype error_t =
    ERROR_ALL_GOOD
  | ERROR_NO_OP
  | ERROR_BUFFER_OUT_OF_BOUNDS
  | ERROR_COULD_NOT_ALLOCATE
  | ERROR_WRONG_OUTPUT_SIZE

record bit_stream_t =
  buffer :: "byte list"
  buffer_length :: nat
  buffer_position :: nat
  byte_buffer :: byte
  bit_count :: byte

record lzss_config_t =
  offset_bits :: nat
  max_offset :: nat
  minimum_length :: nat
  length_bits :: nat
  max_length :: nat

text \<open>The fields of \<^verbatim>\<open>match_t\<close>; \<open>length\<close> is taken by lists.\<close>

record match_t =
  offset :: nat
  length' :: nat

section \<open>The bit stream\<close>

definition bit_stream_init :: "array_t \<Rightarrow> bit_stream_t" where
  "bit_stream_init buf =
     \<lparr>buffer = buf, buffer_length = length buf, buffer_position = 0,
      byte_buffer = 0, bit_count = 0\<rparr>"

definition bit_stream_unflush :: "bit_stream_t \<Rightarrow> error_t \<times> bit_stream_t" where
  "bit_stream_unflush stream =
     (if buffer_position stream < buffer_length stream then
        (ERROR_ALL_GOOD,
         stream\<lparr>byte_buffer := buffer stream ! buffer_position stream,
                buffer_position := buffer_position stream + 1,
                bit_count := 8\<rparr>)
      else (ERROR_BUFFER_OUT_OF_BOUNDS, stream))"

definition bit_stream_flush :: "bit_stream_t \<Rightarrow> error_t \<times> bit_stream_t" where
  "bit_stream_flush stream =
     (if bit_count stream = 0 then (ERROR_ALL_GOOD, stream)
      else
        let stream1 =
              (if bit_count stream < 8
               then stream\<lparr>byte_buffer :=
                              push_bit (unat (8 - bit_count stream)) (byte_buffer stream)\<rparr>
               else stream)
        in if buffer_position stream1 \<ge> buffer_length stream1
           then (ERROR_BUFFER_OUT_OF_BOUNDS, stream1)
           else (ERROR_ALL_GOOD,
                 stream1\<lparr>buffer := (buffer stream1)[buffer_position stream1 := byte_buffer stream1],
                         buffer_position := buffer_position stream1 + 1,
                         byte_buffer := 0,
                         bit_count := 0\<rparr>))"

text \<open>
  The C functions return the bit or the number through a pointer that they leave untouched
  on an error; every caller initialises the target to 0, which is the value returned here
  beside an error.
\<close>

definition bit_stream_read_bit :: "bit_stream_t \<Rightarrow> error_t \<times> bit_stream_t \<times> byte" where
  "bit_stream_read_bit stream =
     (let (error, stream1) =
            (if bit_count stream = 0 then bit_stream_unflush stream
             else (ERROR_ALL_GOOD, stream))
      in if error \<noteq> ERROR_ALL_GOOD then (error, stream1, 0)
         else
           let stream2 = stream1\<lparr>bit_count := bit_count stream1 - 1\<rparr>
           in (error, stream2,
               if byte_buffer stream2 AND push_bit (unat (bit_count stream2)) 1 \<noteq> 0
               then 1 else 0))"

definition bit_stream_write_bit :: "bit_stream_t \<Rightarrow> byte \<Rightarrow> error_t \<times> bit_stream_t" where
  "bit_stream_write_bit stream bit_in =
     (let stream1 = stream\<lparr>byte_buffer := push_bit 1 (byte_buffer stream)\<rparr>;
          stream2 = stream1\<lparr>byte_buffer := byte_buffer stream1 OR (bit_in AND 1)\<rparr>;
          stream3 = stream2\<lparr>bit_count := bit_count stream2 + 1\<rparr>
      in if bit_count stream3 = 8 then bit_stream_flush stream3
         else (ERROR_ALL_GOOD, stream3))"

function read_uint32_loop ::
  "bit_stream_t \<Rightarrow> nat \<Rightarrow> nat \<Rightarrow> nat \<Rightarrow> error_t \<times> bit_stream_t \<times> nat" where
  "read_uint32_loop stream bits value i =
     (if i < bits then
        let value1 = take_bit 32 (push_bit 1 value);
            (error, stream1, bit_out) = bit_stream_read_bit stream
        in if error \<noteq> ERROR_ALL_GOOD then (error, stream1, 0)
           else read_uint32_loop stream1 bits (value1 OR unat (bit_out AND 1)) (i + 1)
      else (ERROR_ALL_GOOD, stream, value))"
  by pat_completeness auto
termination
  by (relation "measure (\<lambda>(stream, bits, value, i). bits - i)") auto

declare read_uint32_loop.simps [simp del]

definition bit_stream_read_uint32 ::
  "bit_stream_t \<Rightarrow> nat \<Rightarrow> error_t \<times> bit_stream_t \<times> nat" where
  "bit_stream_read_uint32 stream bits = read_uint32_loop stream bits 0 0"

text \<open>
  \<^verbatim>\<open>mask = 1 << (bits - 1)\<close> is exact for \<open>bits \<le> 32\<close>, the range the specification
  allows; the shift is undefined in C beyond it.
\<close>

function bit_stream_write_uint32 ::
  "bit_stream_t \<Rightarrow> nat \<Rightarrow> nat \<Rightarrow> error_t \<times> bit_stream_t" where
  "bit_stream_write_uint32 stream number bits =
     (if bits > 0 then
        let mask = push_bit (bits - 1) (1::nat);
            bit_in = (if number AND mask > 0 then 1 else 0);
            (error, stream1) = bit_stream_write_bit stream bit_in
        in if error \<noteq> ERROR_ALL_GOOD then (error, stream1)
           else bit_stream_write_uint32 stream1 number (bits - 1)
      else (ERROR_ALL_GOOD, stream))"
  by pat_completeness auto
termination
  by (relation "measure (\<lambda>(stream, number, bits). bits)") auto

declare bit_stream_write_uint32.simps [simp del]

text \<open>
  Reads an uint32 using 7-bit VLQ approach. \<^verbatim>\<open>shift\<close> is a \<^verbatim>\<open>uint8_t\<close> that starts at 0
  and never exceeds 35, so its increment cannot wrap.
\<close>

function read_7bit_loop ::
  "bit_stream_t \<Rightarrow> nat \<Rightarrow> nat \<Rightarrow> error_t \<times> bit_stream_t \<times> nat" where
  "read_7bit_loop stream n shift =
     (let (error, stream1, byte) = bit_stream_read_uint32 stream 8
      in if error \<noteq> ERROR_ALL_GOOD then (error, stream1, 0)
         else
           let n1 = n OR take_bit 32 (push_bit shift (byte AND 127));
               shift1 = shift + 7
           in if byte AND 128 = 0 \<or> shift1 > 32 then (ERROR_ALL_GOOD, stream1, n1)
              else read_7bit_loop stream1 n1 shift1)"
  by pat_completeness auto
termination
  by (relation "measure (\<lambda>(stream, n, shift). 33 - shift)") auto

declare read_7bit_loop.simps [simp del]

definition bit_stream_read_7bit_uint32 ::
  "bit_stream_t \<Rightarrow> error_t \<times> bit_stream_t \<times> nat" where
  "bit_stream_read_7bit_uint32 stream = read_7bit_loop stream 0 0"

text \<open>
  Writes an uint32 using 7-bit VLQ approach. The loop returns the remaining \<open>n\<close> as well;
  the result of the last \<^verbatim>\<open>bit_stream_write_uint32\<close> is dropped, as in the C code.
\<close>

function write_7bit_loop ::
  "bit_stream_t \<Rightarrow> nat \<Rightarrow> error_t \<times> bit_stream_t \<times> nat" where
  "write_7bit_loop stream n =
     (if n > 127 then
        let b = 128 OR (n AND 127);
            (error, stream1) = bit_stream_write_uint32 stream b 8
        in if error \<noteq> ERROR_ALL_GOOD then (error, stream1, n)
           else write_7bit_loop stream1 (drop_bit 7 n)
      else (ERROR_ALL_GOOD, stream, n))"
  by pat_completeness auto
termination
  by (relation "measure (\<lambda>(stream, n). n)") (auto simp: drop_bit_eq_div)

declare write_7bit_loop.simps [simp del]

definition bit_stream_write_7bit_uint32 ::
  "bit_stream_t \<Rightarrow> nat \<Rightarrow> error_t \<times> bit_stream_t" where
  "bit_stream_write_7bit_uint32 stream number =
     (let (error, stream1, n) = write_7bit_loop stream number
      in if error \<noteq> ERROR_ALL_GOOD then (error, stream1)
         else if n > 0 then (error, snd (bit_stream_write_uint32 stream1 (n AND 127) 8))
         else (error, stream1))"

section \<open>Configuration and sizing\<close>

text \<open>
  \<^verbatim>\<open>(1 << bits) - 1\<close> stored in a \<^verbatim>\<open>uint32_t\<close>: computed in a 32-bit word.
\<close>

definition lzss_config_init :: "nat \<Rightarrow> nat \<Rightarrow> nat \<Rightarrow> lzss_config_t" where
  "lzss_config_init obits lbits minlen =
     \<lparr>offset_bits = obits,
      max_offset = unat ((push_bit obits 1 :: 32 word) - 1),
      minimum_length = minlen,
      length_bits = lbits,
      max_length = unat ((push_bit lbits 1 :: 32 word) - 1)\<rparr>"

definition lzss_get_upper_bound :: "nat \<Rightarrow> nat" where
  "lzss_get_upper_bound input_length =
     (let total_bits = (32 + input_length * 9) mod 2 ^ 32
      in total_bits div 8 + (if total_bits mod 8 > 0 then 1 else 0))"

definition lzss_get_original_length :: "array_t \<Rightarrow> error_t \<times> nat" where
  "lzss_get_original_length input =
     (let stream = bit_stream_init input;
          (error, stream1, len) = bit_stream_read_7bit_uint32 stream
      in if error \<noteq> ERROR_ALL_GOOD then (error, 0) else (error, len))"

section \<open>The match finder\<close>

text \<open>
  The inner loop of \<^verbatim>\<open>__get_longest_match\<close>: the run of equal bytes from \<open>offs\<close> and
  from \<open>index\<close>. Both sums stay below \<open>length input\<close>, hence below \<open>2 ^ 32\<close>.
\<close>

function match_run :: "array_t \<Rightarrow> nat \<Rightarrow> nat \<Rightarrow> nat \<Rightarrow> nat" where
  "match_run input offs index len =
     (if offs + len < length input \<and> index + len < length input
         \<and> input ! (offs + len) = input ! (index + len)
      then match_run input offs index (len + 1)
      else len)"
  by pat_completeness auto
termination
  by (relation "measure (\<lambda>(input, offs, index, len). length input - (index + len))") auto

declare match_run.simps [simp del]

text \<open>The outer loop; it returns \<open>(best_offset, best_length)\<close>.\<close>

function longest_match_loop ::
  "array_t \<Rightarrow> nat \<Rightarrow> nat \<Rightarrow> nat \<Rightarrow> nat \<Rightarrow> nat \<times> nat" where
  "longest_match_loop input index offs best_offset best_length =
     (if offs < index \<and> offs < length input then
        let len = match_run input offs index 0
        in if len \<ge> best_length
           then longest_match_loop input index (offs + 1) offs len
           else longest_match_loop input index (offs + 1) best_offset best_length
      else (best_offset, best_length))"
  by pat_completeness auto
termination
  by (relation "measure (\<lambda>(input, index, offs, best_offset, best_length). index - offs)") auto

declare longest_match_loop.simps [simp del]

definition get_longest_match :: "lzss_config_t \<Rightarrow> array_t \<Rightarrow> nat \<Rightarrow> match_t" where
  "get_longest_match config input index =
     (if (index + minimum_length config) mod 2 ^ 32 \<ge> length input
      then \<lparr>offset = 0, length' = 0\<rparr>
      else
        let offs = (if max_offset config > index then 0 else index - max_offset config);
            (best_offset, best_length) = longest_match_loop input index offs 0 0
        in \<lparr>offset = index - best_offset,
            length' = min best_length (max_length config)\<rparr>)"

section \<open>Encoding\<close>

text \<open>
  The number of bits a stream can still take before a flush fails, and the number of bits
  it can still give; they bound the loops of the encoder and of the decoder.
\<close>

definition write_room :: "bit_stream_t \<Rightarrow> nat" where
  "write_room stream =
     8 * (buffer_length stream - buffer_position stream) + unat (7 - bit_count stream)"

definition read_room :: "bit_stream_t \<Rightarrow> nat" where
  "read_room stream =
     8 * (buffer_length stream - buffer_position stream) + unat (bit_count stream)"


lemma word8_succ_eq_8: "(x::8 word) + 1 = 8 \<Longrightarrow> x = 7"
proof -
  assume "x + 1 = 8"
  then have "x + 1 - 1 = 8 - 1" by simp
  then show ?thesis by simp
qed

lemma word8_unat_pred: "(y::8 word) \<noteq> 0 \<Longrightarrow> unat (y - 1) = unat y - 1"
  by (simp add: unat_minus_one)

lemma word8_room_step: "(x::8 word) \<noteq> 7 \<Longrightarrow> unat (7 - (x + 1)) < unat (7 - x)"
proof -
  assume "x \<noteq> 7"
  then have ne: "7 - x \<noteq> 0" by auto
  have "7 - (x + 1) = (7 - x) - 1" by simp
  then have "unat (7 - (x + 1)) = unat (7 - x) - 1" using word8_unat_pred [OF ne] by simp
  moreover have "0 < unat (7 - x)" using ne by (simp add: unat_gt_0)
  ultimately show ?thesis by simp
qed

lemma write_bit_room:
  assumes "bit_stream_write_bit stream b = (ERROR_ALL_GOOD, stream1)"
  shows "write_room stream1 < write_room stream"
proof (cases "bit_count stream + 1 = 8")
  case True
  then have bc: "bit_count stream = 7"
    by (rule word8_succ_eq_8)
  from assms bc have "buffer_position stream < buffer_length stream"
    by (simp add: bit_stream_write_bit_def bit_stream_flush_def Let_def split: if_splits)
  with assms bc show ?thesis
    by (auto simp add: bit_stream_write_bit_def bit_stream_flush_def write_room_def Let_def)
next
  case False
  then have "bit_count stream \<noteq> 7" by auto
  then have "unat (7 - (bit_count stream + 1)) < unat (7 - bit_count stream)"
    by (rule word8_room_step)
  with assms False show ?thesis
    by (auto simp: bit_stream_write_bit_def write_room_def Let_def)
qed

lemma write_uint32_room:
  "bit_stream_write_uint32 stream number bits = (ERROR_ALL_GOOD, stream1)
   \<Longrightarrow> write_room stream1 \<le> write_room stream"
proof (induction stream number bits rule: bit_stream_write_uint32.induct)
  case (1 stream number bits)
  show ?case
  proof (cases "bits > 0")
    case False
    with "1.prems" show ?thesis by (simp add: bit_stream_write_uint32.simps)
  next
    case True
    obtain e s where w: "bit_stream_write_bit stream
        (if number AND push_bit (bits - 1) (1::nat) > 0 then 1 else 0) = (e, s)"
      by (cases "bit_stream_write_bit stream
        (if number AND push_bit (bits - 1) (1::nat) > 0 then 1 else 0)")
    from "1.prems" True w have e: "e = ERROR_ALL_GOOD"
      by (subst (asm) bit_stream_write_uint32.simps) (auto simp: Let_def split: if_splits)
    from "1.prems" True w e
    have r: "bit_stream_write_uint32 s number (bits - 1) = (ERROR_ALL_GOOD, stream1)"
      by (subst (asm) bit_stream_write_uint32.simps) (auto simp: Let_def split: if_splits)
    have "write_room stream1 \<le> write_room s"
      using "1.IH" [OF True refl refl w [symmetric]] e r by simp
    moreover have "write_room s < write_room stream"
      using w e write_bit_room by blast
    ultimately show ?thesis by simp
  qed
qed

lemma read_bit_room:
  assumes "bit_stream_read_bit stream = (ERROR_ALL_GOOD, stream1, b)"
  shows "read_room stream1 < read_room stream"
proof (cases "bit_count stream = 0")
  case True
  with assms have "buffer_position stream < buffer_length stream"
    by (simp add: bit_stream_read_bit_def bit_stream_unflush_def Let_def split: if_splits)
  with assms True show ?thesis
    by (auto simp: bit_stream_read_bit_def bit_stream_unflush_def read_room_def Let_def)
next
  case False
  then have "unat (bit_count stream - 1) < unat (bit_count stream)"
    by (simp add: word8_unat_pred unat_gt_0)
  with assms False show ?thesis
    by (auto simp: bit_stream_read_bit_def read_room_def Let_def)
qed

lemma read_uint32_loop_room:
  "read_uint32_loop stream bits v i = (ERROR_ALL_GOOD, stream1, r)
   \<Longrightarrow> read_room stream1 \<le> read_room stream"
proof (induction stream bits v i rule: read_uint32_loop.induct)
  case (1 stream bits v i)
  show ?case
  proof (cases "i < bits")
    case False
    with "1.prems" show ?thesis by (simp add: read_uint32_loop.simps)
  next
    case True
    obtain e s b where w: "bit_stream_read_bit stream = (e, s, b)"
      by (cases "bit_stream_read_bit stream")
    from "1.prems" True w have e: "e = ERROR_ALL_GOOD"
      by (subst (asm) read_uint32_loop.simps) (auto simp: Let_def split: if_splits)
    from "1.prems" True w e
    have r: "read_uint32_loop s bits (take_bit 32 (push_bit 1 v) OR unat (b AND 1)) (i + 1)
               = (ERROR_ALL_GOOD, stream1, r)"
      by (subst (asm) read_uint32_loop.simps) (auto simp: Let_def split: if_splits)
    have "read_room stream1 \<le> read_room s"
      using "1.IH" [OF True refl w [symmetric] refl] e r by simp
    moreover have "read_room s < read_room stream"
      using w e read_bit_room by blast
    ultimately show ?thesis by simp
  qed
qed

lemma read_uint32_room:
  "bit_stream_read_uint32 stream bits = (ERROR_ALL_GOOD, stream1, r)
   \<Longrightarrow> read_room stream1 \<le> read_room stream"
  unfolding bit_stream_read_uint32_def by (rule read_uint32_loop_room)

text \<open>
  The main loop of \<^verbatim>\<open>lzss_encode\<close>. \<^verbatim>\<open>index + match.length\<close> never exceeds the input
  length, so it cannot wrap. Every iteration writes at least the flag bit, which is why
  the loop ends even where a match of length 0 is accepted.
\<close>

function encode_loop ::
  "lzss_config_t \<Rightarrow> array_t \<Rightarrow> nat \<Rightarrow> bit_stream_t \<Rightarrow> error_t \<times> bit_stream_t" where
  "encode_loop config input index stream =
     (if index < length input then
        let m = get_longest_match config input index
        in if length' m \<ge> minimum_length config then
             let (error, stream1) = bit_stream_write_bit stream 1
             in if error \<noteq> ERROR_ALL_GOOD then (error, stream1) else
             let (error, stream2) =
                   bit_stream_write_uint32 stream1 (offset m) (offset_bits config)
             in if error \<noteq> ERROR_ALL_GOOD then (error, stream2) else
             let (error, stream3) =
                   bit_stream_write_uint32 stream2 (length' m) (length_bits config)
             in if error \<noteq> ERROR_ALL_GOOD then (error, stream3) else
             encode_loop config input (index + length' m) stream3
           else
             let (error, stream1) = bit_stream_write_bit stream 0
             in if error \<noteq> ERROR_ALL_GOOD then (error, stream1) else
             let (error, stream2) =
                   bit_stream_write_uint32 stream1 (unat (input ! index)) 8
             in if error \<noteq> ERROR_ALL_GOOD then (error, stream2) else
             encode_loop config input (index + 1) stream2
      else (ERROR_ALL_GOOD, stream))"
  by pat_completeness auto
termination
proof (relation "measure (\<lambda>(config, input, index, stream). write_room stream)", goal_cases)
  case 1
  show ?case by simp
next
  case (2 config input index stream m w1 e1 s1 w2 e2 s2 w3 e3 s3)
  then have "bit_stream_write_bit stream 1 = (ERROR_ALL_GOOD, s1)"
    and "bit_stream_write_uint32 s1 (offset m) (offset_bits config) = (ERROR_ALL_GOOD, s2)"
    and "bit_stream_write_uint32 s2 (length' m) (length_bits config) = (ERROR_ALL_GOOD, s3)"
    by simp_all
  then have "write_room s1 < write_room stream" "write_room s2 \<le> write_room s1"
    "write_room s3 \<le> write_room s2"
    by (auto dest: write_bit_room write_uint32_room)
  then show ?case by simp
next
  case (3 config input index stream m w1 e1 s1 w2 e2 s2)
  then have "bit_stream_write_bit stream 0 = (ERROR_ALL_GOOD, s1)"
    and "bit_stream_write_uint32 s1 (unat (input ! index)) 8 = (ERROR_ALL_GOOD, s2)"
    by simp_all
  then have "write_room s1 < write_room stream" "write_room s2 \<le> write_room s1"
    by (auto dest: write_bit_room write_uint32_room)
  then show ?case by simp
qed

declare encode_loop.simps [simp del]

text \<open>
  \<^verbatim>\<open>lzss_encode\<close>. The stream is initialised over the whole output array; on the error
  exit the output's length becomes 0, on success it becomes the stream position.
\<close>

definition lzss_encode :: "lzss_config_t \<Rightarrow> array_t \<Rightarrow> array_t \<Rightarrow> error_t \<times> array_t" where
  "lzss_encode config input output =
     (if length input = 0 then (ERROR_NO_OP, output)
      else
        let stream = bit_stream_init output;
            (error, stream1) = bit_stream_write_7bit_uint32 stream (length input)
        in if error \<noteq> ERROR_ALL_GOOD then (error, take 0 (buffer stream1)) else
        let (error, stream2) = encode_loop config input 0 stream1
        in if error \<noteq> ERROR_ALL_GOOD then (error, take 0 (buffer stream2)) else
        let (error, stream3) = bit_stream_flush stream2
        in if error \<noteq> ERROR_ALL_GOOD then (error, take 0 (buffer stream3)) else
        (error, take (buffer_position stream3) (buffer stream3)))"

section \<open>Decoding\<close>

text \<open>
  The copy of a pair token, byte by byte in increasing \<open>i\<close>. Both indices are computed in
  \<^verbatim>\<open>uint32_t\<close>. An access outside the output array is undefined behaviour in C; the
  model stops with \<open>None\<close> there.
\<close>

function copy_loop :: "array_t \<Rightarrow> nat \<Rightarrow> nat \<Rightarrow> nat \<Rightarrow> nat \<Rightarrow> array_t option" where
  "copy_loop output index offs len i =
     (if i < len then
        let dst = (index + i) mod 2 ^ 32;
            src = ((index + 2 ^ 32 - offs) mod 2 ^ 32 + i) mod 2 ^ 32
        in if dst < length output \<and> src < length output
           then copy_loop (output[dst := output ! src]) index offs len (i + 1)
           else None
      else Some output)"
  by pat_completeness auto
termination
  by (relation "measure (\<lambda>(output, index, offs, len, i). len - i)") auto

declare copy_loop.simps [simp del]

text \<open>
  The main loop of \<^verbatim>\<open>lzss_decode\<close>. Every iteration reads at least the flag bit, so the
  loop ends when the input is used up, also on a stream of pairs of length 0.
\<close>

function decode_loop ::
  "lzss_config_t \<Rightarrow> bit_stream_t \<Rightarrow> array_t \<Rightarrow> nat \<Rightarrow> (error_t \<times> array_t) option" where
  "decode_loop config stream output index =
     (if index < length output then
        let (error, stream1, is_pair) = bit_stream_read_bit stream
        in if error \<noteq> ERROR_ALL_GOOD then Some (error, output) else
        if is_pair \<noteq> 0 then
          let (error, stream2, offs) = bit_stream_read_uint32 stream1 (offset_bits config)
          in if error \<noteq> ERROR_ALL_GOOD then Some (error, output) else
          let (error, stream3, len) = bit_stream_read_uint32 stream2 (length_bits config)
          in if error \<noteq> ERROR_ALL_GOOD then Some (error, output) else
          (case copy_loop output index offs len 0 of
             None \<Rightarrow> None
           | Some output1 \<Rightarrow> decode_loop config stream3 output1 ((index + len) mod 2 ^ 32))
        else
          let (error, stream2, literal) = bit_stream_read_uint32 stream1 8
          in if error \<noteq> ERROR_ALL_GOOD then Some (error, output) else
          decode_loop config stream2 (output[index := of_nat (literal AND 255)]) (index + 1)
      else Some (ERROR_ALL_GOOD, output))"
  by pat_completeness auto
termination
proof (relation "measure (\<lambda>(config, stream, output, index). read_room stream)", goal_cases)
  case 1
  show ?case by simp
next
  case (2 config stream out index r1 e1 p1 s1 b1 r2 e2 p2 s2 offs r3 e3 p3 s3 len output1)
  then have "bit_stream_read_bit stream = (ERROR_ALL_GOOD, s1, b1)"
    and "bit_stream_read_uint32 s1 (offset_bits config) = (ERROR_ALL_GOOD, s2, offs)"
    and "bit_stream_read_uint32 s2 (length_bits config) = (ERROR_ALL_GOOD, s3, len)"
    by simp_all
  then have "read_room s1 < read_room stream" "read_room s2 \<le> read_room s1"
    "read_room s3 \<le> read_room s2"
    by (auto dest: read_bit_room read_uint32_room)
  then show ?case by simp
next
  case (3 config stream out index r1 e1 p1 s1 b1 r2 e2 p2 s2 literal)
  then have "bit_stream_read_bit stream = (ERROR_ALL_GOOD, s1, b1)"
    and "bit_stream_read_uint32 s1 8 = (ERROR_ALL_GOOD, s2, literal)"
    by simp_all
  then have "read_room s1 < read_room stream" "read_room s2 \<le> read_room s1"
    by (auto dest: read_bit_room read_uint32_room)
  then show ?case by simp
qed

declare decode_loop.simps [simp del]

definition lzss_decode ::
  "lzss_config_t \<Rightarrow> array_t \<Rightarrow> array_t \<Rightarrow> (error_t \<times> array_t) option" where
  "lzss_decode config input output =
     (if length input = 0 \<or> length output = 0 then Some (ERROR_NO_OP, output)
      else
        let stream = bit_stream_init input;
            (error, stream1, original_size) = bit_stream_read_7bit_uint32 stream
        in if error \<noteq> ERROR_ALL_GOOD then Some (error, output) else
        if original_size \<noteq> length output then Some (ERROR_WRONG_OUTPUT_SIZE, output)
        else decode_loop config stream1 output 0)"

section \<open>Evaluation rules\<close>

text \<open>
  The loops of the bit stream with their local definitions unfolded; they are the rewrite
  rules used to run the model on concrete inputs.
\<close>

lemma read_uint32_loop_unfold:
  "read_uint32_loop stream bits v i =
     (if i < bits then
        (case bit_stream_read_bit stream of
           (error, stream1, bit_out) \<Rightarrow>
             if error \<noteq> ERROR_ALL_GOOD then (error, stream1, 0)
             else read_uint32_loop stream1 bits
                    (take_bit 32 (push_bit 1 v) OR unat (bit_out AND 1)) (i + 1))
      else (ERROR_ALL_GOOD, stream, v))"
  by (subst read_uint32_loop.simps) (simp only: Let_def)

lemma write_uint32_unfold:
  "bit_stream_write_uint32 stream number bits =
     (if bits > 0 then
        (case bit_stream_write_bit stream
                (if number AND push_bit (bits - 1) (1::nat) > 0 then 1 else 0) of
           (error, stream1) \<Rightarrow>
             if error \<noteq> ERROR_ALL_GOOD then (error, stream1)
             else bit_stream_write_uint32 stream1 number (bits - 1))
      else (ERROR_ALL_GOOD, stream))"
  by (subst bit_stream_write_uint32.simps) (simp only: Let_def)

lemmas stream_eval = bit_stream_init_def bit_stream_unflush_def bit_stream_flush_def
  bit_stream_read_bit_def bit_stream_write_bit_def read_uint32_loop_unfold
  bit_stream_read_uint32_def write_uint32_unfold read_7bit_loop.simps
  bit_stream_read_7bit_uint32_def write_7bit_loop.simps bit_stream_write_7bit_uint32_def
  Let_def

section \<open>Early failures of the decoder\<close>

text \<open>
  C6. \<^verbatim>\<open>lzss_decode\<close> fails with \<open>ERROR_NO_OP\<close> when the input is empty or the output
  array has length 0, and with \<open>ERROR_WRONG_OUTPUT_SIZE\<close> when the header was read and
  the length it declares differs from the length of the output array. In both cases the
  output array is returned as it was given: no byte of it has been written.
\<close>

theorem lzss_decode_early_failures:
  "(length inp = 0 \<or> length out = 0
      \<longrightarrow> lzss_decode config inp out = Some (ERROR_NO_OP, out))
   \<and> (length inp \<noteq> 0 \<and> length out \<noteq> 0
        \<and> bit_stream_read_7bit_uint32 (bit_stream_init inp)
              = (ERROR_ALL_GOOD, after_header, declared_length)
        \<and> declared_length \<noteq> length out
      \<longrightarrow> lzss_decode config inp out = Some (ERROR_WRONG_OUTPUT_SIZE, out))"
  by (simp add: lzss_decode_def Let_def)

theorem lzss_decode_early_failures_witness:
  "lzss_decode (lzss_config_init 10 6 2) [] [7] = Some (ERROR_NO_OP, [7])
   \<and> lzss_decode (lzss_config_init 10 6 2) [3] [] = Some (ERROR_NO_OP, [])
   \<and> lzss_decode (lzss_config_init 10 6 2) [3] [7, 7]
        = Some (ERROR_WRONG_OUTPUT_SIZE, [7, 7])"
proof -
  have h: "bit_stream_read_7bit_uint32 (bit_stream_init [3])
      = (ERROR_ALL_GOOD,
         \<lparr>buffer = [3], buffer_length = 1, buffer_position = 1,
          byte_buffer = 3, bit_count = 0\<rparr>, 3)"
    by (simp add: stream_eval)
  show ?thesis
    using lzss_decode_early_failures
        [where inp = "[]" and out = "[7]" and config = "lzss_config_init 10 6 2"]
      lzss_decode_early_failures
        [where inp = "[3]" and out = "[]" and config = "lzss_config_init 10 6 2"]
      lzss_decode_early_failures
        [where inp = "[3]" and out = "[7, 7]" and config = "lzss_config_init 10 6 2"
           and declared_length = 3
           and after_header = "\<lparr>buffer = [3], buffer_length = 1, buffer_position = 1,
                          byte_buffer = 3, bit_count = 0\<rparr>"] h
    by simp
qed

end
